theory Spec2Isabelle
  imports Main
begin

text \<open>
  The class \<^verbatim>\<open>ProxyServer\<close> of the proxy extension, in the variant that forwards each
  request itself with \<^verbatim>\<open>http.request\<close> or \<^verbatim>\<open>https.request\<close>: its fields as a
  record, \<^verbatim>\<open>start\<close>, \<^verbatim>\<open>stop\<close>, \<^verbatim>\<open>isRunning\<close> and \<^verbatim>\<open>rotateToken\<close> as functions
  that take the state and return the new one, and the request handler as a function from
  the state, the inbound request and the upstream's answer to the outbound request and the
  response. What the code takes from outside (the configuration store, the shell, the
  network, the URL parser) is an argument.
\<close>

section \<open>JavaScript strings and objects\<close>

text \<open>
  Strings are lists of characters with code points below 256. In that range the characters
  that \<^verbatim>\<open>String.prototype.trim\<close> removes and that the regular expression class
  \<^verbatim>\<open>\s\<close> matches are tab, line feed, vertical tab, form feed, carriage return, space and
  the no-break space.
\<close>

definition is_space :: "char \<Rightarrow> bool" where
  "is_space c \<longleftrightarrow>
     c \<in> {CHR 0x09, CHR 0x0A, CHR 0x0B, CHR 0x0C, CHR 0x0D, CHR 0x20, CHR 0xA0}"

text \<open>\<^verbatim>\<open>s.trim()\<close>: leading and trailing white space removed.\<close>

definition trim :: "string \<Rightarrow> string" where
  "trim s = rev (dropWhile is_space (rev (dropWhile is_space s)))"

text \<open>\<^verbatim>\<open>s.replace(/[\r\n\s]+/g, '')\<close>: every run of white space removed.\<close>

definition replace_ws :: "string \<Rightarrow> string" where
  "replace_ws s = filter (\<lambda>c. \<not> is_space c) s"

text \<open>\<^verbatim>\<open>name.toLowerCase()\<close> on the ASCII letters (header names are ASCII tokens).\<close>

definition lower_char :: "char \<Rightarrow> char" where
  "lower_char c =
     (case map_of (zip ''ABCDEFGHIJKLMNOPQRSTUVWXYZ'' ''abcdefghijklmnopqrstuvwxyz'') c of
        None \<Rightarrow> c
      | Some l \<Rightarrow> l)"

definition toLowerCase :: "string \<Rightarrow> string" where
  "toLowerCase s = map lower_char s"

text \<open>
  A JavaScript object with string keys is an association list in insertion order with
  distinct keys. \<^verbatim>\<open>o[k] = v\<close> overwrites in place or appends; \<^verbatim>\<open>delete o[k]\<close>
  removes the key; \<^verbatim>\<open>o[k]\<close> is \<open>map_of o k\<close>, with \<open>None\<close> for
  \<^verbatim>\<open>undefined\<close>.
\<close>

type_synonym 'v js_object = "(string \<times> 'v) list"

fun obj_set :: "string \<Rightarrow> 'v \<Rightarrow> 'v js_object \<Rightarrow> 'v js_object" where
  "obj_set k v [] = [(k, v)]"
| "obj_set k v ((k', v') # xs) =
     (if k' = k then (k, v) # xs else (k', v') # obj_set k v xs)"

definition obj_delete :: "string \<Rightarrow> 'v js_object \<Rightarrow> 'v js_object" where
  "obj_delete k xs = filter (\<lambda>p. fst p \<noteq> k) xs"

section \<open>Configuration, environment and server state\<close>

text \<open>
  \<^verbatim>\<open>vscode.workspace.getConfiguration('proxyExtension')\<close>: each key is a value or
  \<^verbatim>\<open>undefined\<close>. Numbers are integers; \<open>None\<close> also stands for \<^verbatim>\<open>NaN\<close>, which
  is falsy like \<^verbatim>\<open>undefined\<close>.
\<close>

record config =
  destination :: "string option"
  tokenCommand :: "string option"
  proxyPort :: "int option"
  tokenRotationMinutes :: "int option"

text \<open>\<^verbatim>\<open>execSync\<close> throws when the command exits with a non-zero code or runs out of time.\<close>

datatype exec_error = NonZeroExit | TimedOut

text \<open>
  What \<^verbatim>\<open>server.listen(port, callback)\<close> does: it binds the port and calls the callback,
  or it throws at once (Node refuses a port outside 0 to 65535 with a
  \<^verbatim>\<open>RangeError\<close>), or it returns and the callback never runs (the port is taken; the
  failure comes later as an \<^verbatim>\<open>error\<close> event, for which the code has no listener).
\<close>

datatype listen_result = Listens | Throws | Silent

text \<open>
  What the code reads from outside at one moment: the configuration store, the outcome of
  running a shell command, and the outcome of listening on a port.
\<close>

record env =
  cfg :: config
  execSync :: "string \<Rightarrow> exec_error + string"
  listen :: "int \<Rightarrow> listen_result"

text \<open>
  The object made by \<^verbatim>\<open>http.createServer\<close>: its request handler closes over the
  constant \<^verbatim>\<open>destination\<close> of the \<^verbatim>\<open>start\<close> call; \<open>listening\<close> is the bound
  port once the listen callback has run.
\<close>

record http_server =
  captured_destination :: string
  listening :: "int option"

text \<open>
  The fields of class \<^verbatim>\<open>ProxyServer\<close>; the timer is the delay in milliseconds at which
  it fires.
\<close>

record ProxyServer =
  server :: "http_server option"
  proxy :: "unit option"
  token :: string
  tokenRotationInterval :: "int option"
  shouldUseAuthentication :: bool

text \<open>The state made by the constructor.\<close>

definition new_ProxyServer :: ProxyServer where
  "new_ProxyServer =
     \<lparr>server = None, proxy = None, token = '''', tokenRotationInterval = None,
      shouldUseAuthentication = False\<rparr>"

text \<open>The messages shown through \<^verbatim>\<open>vscode.window\<close>, one constructor for each call site.\<close>

datatype message =
    InfoAlreadyRunning
  | ErrorDestinationNotSet
  | InfoAuthenticationDisabled
  | InfoStarted int string bool
  | InfoNotRunning
  | InfoStopped
  | WarningTokenCommandEmpty
  | InfoTokenRotated
  | ErrorTokenCommandFailed exec_error

section \<open>The lifecycle operations\<close>

text \<open>\<^verbatim>\<open>x || d\<close> for a number \<open>x\<close>: \<^verbatim>\<open>undefined\<close>, \<^verbatim>\<open>NaN\<close> and \<open>0\<close> give \<open>d\<close>.\<close>

definition or_number :: "int option \<Rightarrow> int \<Rightarrow> int" where
  "or_number x d = (case x of None \<Rightarrow> d | Some n \<Rightarrow> if n = 0 then d else n)"

text \<open>
  The delay a timer made by \<^verbatim>\<open>setInterval(f, ms)\<close> runs at: Node replaces a delay
  below 1 or above \<open>2\<^sup>3\<^sup>1 - 1\<close> by 1.
\<close>

definition setInterval_delay :: "int \<Rightarrow> int" where
  "setInterval_delay ms = (if ms < 1 \<or> 2147483647 < ms then 1 else ms)"

text \<open>The state of the promise an \<^verbatim>\<open>async\<close> function has returned.\<close>

datatype 'a promise = Resolved 'a | Rejected | Pending

definition isRunning :: "ProxyServer \<Rightarrow> bool" where
  "isRunning this \<longleftrightarrow> server this \<noteq> None"

text \<open>
  \<^verbatim>\<open>rotateToken\<close> reads the configuration again on every call. The function has no
  \<^verbatim>\<open>await\<close> inside, so it runs to its end when called.
\<close>

definition rotateToken :: "env \<Rightarrow> ProxyServer \<Rightarrow> message list \<times> ProxyServer" where
  "rotateToken e this =
     (if \<not> shouldUseAuthentication this then ([], this)
      else
        (case tokenCommand (cfg e) of
           None \<Rightarrow>
             ([WarningTokenCommandEmpty],
              this\<lparr>shouldUseAuthentication := False, token := ''''\<rparr>)
         | Some cmd \<Rightarrow>
             if cmd = '''' \<or> trim cmd = '''' then
               ([WarningTokenCommandEmpty],
                this\<lparr>shouldUseAuthentication := False, token := ''''\<rparr>)
             else
               (case execSync e cmd of
                  Inl err \<Rightarrow> ([ErrorTokenCommandFailed err], this)
                | Inr out \<Rightarrow> ([InfoTokenRotated], this\<lparr>token := replace_ws (trim out)\<rparr>))))"

text \<open>
  \<^verbatim>\<open>start\<close> returns a promise. The call of \<^verbatim>\<open>listen\<close> stands inside the executor of
  \<^verbatim>\<open>new Promise\<close>, and that promise is returned without \<^verbatim>\<open>await\<close>: when
  \<^verbatim>\<open>listen\<close> throws the promise is rejected and the \<^verbatim>\<open>catch\<close> block of
  \<^verbatim>\<open>start\<close> does not see it; when the callback never runs the promise stays pending.
  Nothing else inside the \<^verbatim>\<open>try\<close> block throws: \<^verbatim>\<open>rotateToken\<close> catches its own
  errors and \<^verbatim>\<open>http.createServer\<close> does not fail.
\<close>

definition start :: "env \<Rightarrow> ProxyServer \<Rightarrow> (bool promise \<times> message list) \<times> ProxyServer" where
  "start e this =
     (if server this \<noteq> None then ((Resolved False, [InfoAlreadyRunning]), this)
      else
        let dest = destination (cfg e);
            cmd = (case tokenCommand (cfg e) of None \<Rightarrow> '''' | Some c \<Rightarrow> c);
            port = or_number (proxyPort (cfg e)) 123456;
            minutes = or_number (tokenRotationMinutes (cfg e)) 60;
            this1 = this\<lparr>shouldUseAuthentication := (trim cmd \<noteq> '''')\<rparr>
        in
          (case dest of
             None \<Rightarrow> ((Resolved False, [ErrorDestinationNotSet]), this1)
           | Some d \<Rightarrow>
               if d = '''' then ((Resolved False, [ErrorDestinationNotSet]), this1)
               else
                 let (msgs, this2) =
                       (if shouldUseAuthentication this1 then rotateToken e this1
                        else ([InfoAuthenticationDisabled], this1));
                     this3 = this2\<lparr>server :=
                               Some \<lparr>captured_destination = d, listening = None\<rparr>\<rparr>
                 in
                   (case listen e port of
                      Listens \<Rightarrow>
                        ((Resolved True,
                          msgs @ [InfoStarted port d (shouldUseAuthentication this3)]),
                         this3\<lparr>server :=
                                  Some \<lparr>captured_destination = d, listening = Some port\<rparr>,
                                tokenRotationInterval :=
                                  (if shouldUseAuthentication this3
                                   then Some (setInterval_delay (minutes * 60 * 1000))
                                   else tokenRotationInterval this3)\<rparr>)
                    | Throws \<Rightarrow> ((Rejected, msgs), this3)
                    | Silent \<Rightarrow> ((Pending, msgs), this3))))"

text \<open>
  \<^verbatim>\<open>stop\<close>. In this variant \<open>proxy\<close> is never assigned, and
  \<^verbatim>\<open>http.Server.close\<close> reports a failed close through its callback and not by
  throwing, so the \<^verbatim>\<open>catch\<close> block has nothing that reaches it.
\<close>

definition stop :: "ProxyServer \<Rightarrow> (bool \<times> message list) \<times> ProxyServer" where
  "stop this =
     (if server this = None then ((False, [InfoNotRunning]), this)
      else
        ((True, [InfoStopped]),
         this\<lparr>tokenRotationInterval := None, server := None, proxy := None,
              shouldUseAuthentication := False\<rparr>))"

section \<open>The request handler\<close>

text \<open>
  The fields of \<^verbatim>\<open>new URL(destination)\<close> that the handler reads. The parser is the
  platform's; the handler takes it as \<open>parse\<close>, with \<open>None\<close> where the constructor
  throws.
\<close>

record url =
  url_protocol :: string
  url_hostname :: string
  url_port :: string

text \<open>The inbound request (\<^verbatim>\<open>req\<close>); Node stores its header names in lower case.\<close>

record IncomingMessage =
  req_url :: string
  req_method :: string
  req_headers :: "string js_object"
  req_body :: string

text \<open>\<^verbatim>\<open>url.port || (isHttps ? 443 : 80)\<close> is a string or a number.\<close>

datatype js_port = PortString string | PortNumber nat

record request_options =
  hostname :: string  port :: js_port
  path :: string  http_method :: string
  headers :: "string js_object"
  timeout :: nat
  keepAlive :: bool
  keepAliveMsecs :: nat
  maxSockets :: nat
  rejectUnauthorized :: bool

text \<open>
  The first part of the handler, up to the call of \<^verbatim>\<open>requestFn\<close>: the flag
  \<^verbatim>\<open>isHttps\<close> and the \<^verbatim>\<open>options\<close> object; \<open>None\<close> when \<^verbatim>\<open>new URL\<close> throws.
\<close>

definition requestOptions ::
  "(string \<Rightarrow> url option) \<Rightarrow> string \<Rightarrow> ProxyServer \<Rightarrow> IncomingMessage
     \<Rightarrow> (bool \<times> request_options) option" where
  "requestOptions parse dest this req =
     (case parse dest of
        None \<Rightarrow> None
      | Some u \<Rightarrow>
          let isHttps = (url_protocol u = ''https:'');
              options = \<lparr>hostname = url_hostname u,
                         port = (if url_port u \<noteq> '''' then PortString (url_port u)
                                 else PortNumber (if isHttps then 443 else 80)),
                         path = req_url req,
                         http_method = req_method req,
                         headers = req_headers req,
                         timeout = 30000,
                         keepAlive = True,
                         keepAliveMsecs = 1000,
                         maxSockets = 50,
                         rejectUnauthorized = False\<rparr>;
              options1 =
                (if shouldUseAuthentication this \<and> token this \<noteq> ''''
                    \<and> trim (token this) \<noteq> ''''
                 then options\<lparr>headers :=
                        obj_set ''Authorization''
                          (''Bearer '' @ replace_ws (trim (token this))) (headers options)\<rparr>
                 else options);
              options2 = options1\<lparr>headers :=
                           obj_delete ''proxy-connection''
                             (obj_delete ''connection''
                               (obj_delete ''host'' (headers options1)))\<rparr>
          in Some (isHttps, options2))"

text \<open>
  What Node's \<^verbatim>\<open>ClientRequest\<close> does with \<^verbatim>\<open>options.headers\<close>: it calls
  \<^verbatim>\<open>setHeader(key, value)\<close> for each key in order, and \<^verbatim>\<open>setHeader\<close> files the
  pair of name and value under the lower-cased name, replacing an earlier entry. The
  result is the list of header lines sent upstream.
\<close>

definition setHeader ::
  "string \<Rightarrow> string \<Rightarrow> (string \<times> string) js_object \<Rightarrow> (string \<times> string) js_object" where
  "setHeader name v hs = obj_set (toLowerCase name) (name, v) hs"

definition outgoing_headers :: "string js_object \<Rightarrow> (string \<times> string) js_object" where
  "outgoing_headers hs = fold (\<lambda>p acc. setHeader (fst p) (snd p) acc) hs []"

text \<open>The header lines that go out: name and value, in order.\<close>

definition sent_headers :: "string js_object \<Rightarrow> (string \<times> string) list" where
  "sent_headers hs = map snd (outgoing_headers hs)"

text \<open>
  \<^verbatim>\<open>req.headers\<close> as Node builds it: an object, so no key twice, and every name in
  lower case.
\<close>

definition node_headers :: "string js_object \<Rightarrow> bool" where
  "node_headers hs \<longleftrightarrow>
     distinct (map fst hs) \<and> list_all (\<lambda>p. toLowerCase (fst p) = fst p) hs"

text \<open>The upstream response (\<^verbatim>\<open>proxyRes\<close>) and what may come instead of it.\<close>

record proxy_response =
  statusCode :: nat
  res_headers :: "string js_object"
  res_body :: string

datatype upstream_outcome = Responds proxy_response | TimesOut | Fails string

text \<open>What the handler writes to the client (\<^verbatim>\<open>res\<close>).\<close>

record client_response =
  status :: nat
  out_headers :: "string js_object"
  out_body :: string

text \<open>The callback given to \<^verbatim>\<open>requestFn\<close>.\<close>

definition onResponse :: "proxy_response \<Rightarrow> client_response" where
  "onResponse proxyRes =
     (let location = map_of (res_headers proxyRes) ''location'' in
      if (statusCode proxyRes = 301 \<or> statusCode proxyRes = 302)
         \<and> location \<noteq> None \<and> location \<noteq> Some ''''
      then \<lparr>status = statusCode proxyRes,
            out_headers = [(''Location'', the location)],
            out_body = ''''\<rparr>
      else \<lparr>status = (if statusCode proxyRes = 0 then 500 else statusCode proxyRes),
            out_headers = obj_delete ''proxy-connection''
                            (obj_delete ''connection'' (res_headers proxyRes)),
            out_body = res_body proxyRes\<rparr>)"

text \<open>An outbound request as issued: the scheme, the options and the body piped into it.\<close>

record outbound =
  https :: bool
  options :: request_options
  sent_body :: string

text \<open>
  The handler listens for the \<^verbatim>\<open>close\<close> event of the inbound request and destroys the
  outbound request when it comes. The event comes before the upstream has answered when
  the client has gone away by then (\<open>disconnected\<close>), and also, from Node 16 on, whenever
  the handler has read the inbound body to its end, which it does (\<^verbatim>\<open>req.pipe\<close>) for
  every method other than GET and HEAD.
\<close>

definition closes_before_answer :: "IncomingMessage \<Rightarrow> bool \<Rightarrow> bool" where
  "closes_before_answer req disconnected \<longleftrightarrow>
     (req_method req \<noteq> ''GET'' \<and> req_method req \<noteq> ''HEAD'') \<or> disconnected"

text \<open>
  The whole handler for one inbound request: the outbound requests it issues and the
  response it writes. \<open>upstream\<close> is the network's answer to an outbound request. A
  destroyed outbound request emits the error \<^verbatim>\<open>socket hang up\<close>, which the error
  listener answers with 502 as it does any other failure.
\<close>

definition handler ::
  "(string \<Rightarrow> url option) \<Rightarrow> string \<Rightarrow> ProxyServer \<Rightarrow> IncomingMessage \<Rightarrow> bool
     \<Rightarrow> (outbound \<Rightarrow> upstream_outcome) \<Rightarrow> outbound list \<times> client_response" where
  "handler parse dest this req disconnected upstream =
     (case requestOptions parse dest this req of
        None \<Rightarrow>
          ([], \<lparr>status = 500, out_headers = [], out_body = ''Internal server error''\<rparr>)
      | Some (isHttps, opts) \<Rightarrow>
          let proxyReq = \<lparr>https = isHttps, options = opts,
                          sent_body = (if req_method req \<noteq> ''GET'' \<and> req_method req \<noteq> ''HEAD''
                                       then req_body req else '''')\<rparr>
          in ([proxyReq],
              (if closes_before_answer req disconnected then
                 \<lparr>status = 502, out_headers = [],
                  out_body = ''Proxy request failed: '' @ ''socket hang up''\<rparr>
               else
                 (case upstream proxyReq of
                    Responds proxyRes \<Rightarrow> onResponse proxyRes
                  | TimesOut \<Rightarrow>
                      \<lparr>status = 504, out_headers = [], out_body = ''Gateway Timeout''\<rparr>
                  | Fails msg \<Rightarrow>
                      \<lparr>status = 502, out_headers = [],
                       out_body = ''Proxy request failed: '' @ msg\<rparr>))))"

text \<open>The URL an outbound request goes to, written out.\<close>

definition target_url :: "outbound \<Rightarrow> string" where
  "target_url r =
     (if https r then ''https://'' else ''http://'') @ hostname (options r) @
     (case port (options r) of PortString p \<Rightarrow> '':'' @ p | PortNumber n \<Rightarrow> '''') @
     path (options r)"

section \<open>A server run\<close>

text \<open>
  What can happen to a server object between a \<^verbatim>\<open>start\<close> and the next \<^verbatim>\<open>stop\<close>:
  \<^verbatim>\<open>start\<close> is called again, or the rotation timer fires; each sees the environment
  of its own moment. The timer exists only while \<open>tokenRotationInterval\<close> is set.
\<close>

datatype event = StartCalled env | TimerFired env

fun step :: "event \<Rightarrow> ProxyServer \<Rightarrow> ProxyServer" where
  "step (StartCalled e) this = snd (start e this)"
| "step (TimerFired e) this =
     (if tokenRotationInterval this \<noteq> None then snd (rotateToken e this) else this)"

definition run :: "event list \<Rightarrow> ProxyServer \<Rightarrow> ProxyServer" where
  "run evs this = fold step evs this"

text \<open>The states a server object can be in, from its construction on.\<close>

inductive reachable :: "ProxyServer \<Rightarrow> bool" where
  reachable_new: "reachable new_ProxyServer"
| reachable_start: "reachable this \<Longrightarrow> reachable (snd (start e this))"
| reachable_stop: "reachable this \<Longrightarrow> reachable (snd (stop this))"
| reachable_timer:
    "reachable this \<Longrightarrow> tokenRotationInterval this \<noteq> None
       \<Longrightarrow> reachable (snd (rotateToken e this))"

section \<open>Concrete inputs\<close>

text \<open>
  A parser that knows two destinations, a shell that knows three commands, and a
  \<^verbatim>\<open>listen\<close> that binds the ports Node accepts and throws at the others.
\<close>

definition example_parse :: "string \<Rightarrow> url option" where
  "example_parse s =
     (if s = ''http://host:8080/api''
      then Some \<lparr>url_protocol = ''http:'', url_hostname = ''host'', url_port = ''8080''\<rparr>
      else if s = ''https://api.example.com''
      then Some \<lparr>url_protocol = ''https:'', url_hostname = ''api.example.com'',
                 url_port = ''''\<rparr>
      else None)"

definition example_exec :: "string \<Rightarrow> exec_error + string" where
  "example_exec c =
     (if c = ''print-token'' then Inr ''  abc123\<newline>''
      else if c = ''print-other'' then Inr ''T1''
      else if c = ''print-lines'' then Inr '' ab c\<newline>12 3\<newline>''
      else Inl NonZeroExit)"

definition node_listen :: "int \<Rightarrow> listen_result" where
  "node_listen p = (if 0 \<le> p \<and> p < 65536 then Listens else Throws)"

definition example_env :: "string option \<Rightarrow> string option \<Rightarrow> int option \<Rightarrow> env" where
  "example_env dest cmd p =
     \<lparr>cfg = \<lparr>destination = dest, tokenCommand = cmd, proxyPort = p,
             tokenRotationMinutes = Some 60\<rparr>,
      execSync = example_exec, listen = node_listen\<rparr>"


definition example_request :: IncomingMessage where
  "example_request =
     \<lparr>req_url = ''/foo?x=1'', req_method = ''GET'',
      req_headers = [(''host'', ''localhost:8080''), (''authorization'', ''Basic abc''),
                     (''accept'', ''*/*'')],
      req_body = ''''\<rparr>"

section \<open>White space and the stored token\<close>

lemma replace_ws_dropWhile: "replace_ws (dropWhile is_space s) = replace_ws s"
  by (induction s) (auto simp: replace_ws_def)

lemma replace_ws_rev: "replace_ws (rev s) = rev (replace_ws s)"
  by (simp add: replace_ws_def rev_filter)

lemma replace_ws_trim: "replace_ws (trim s) = replace_ws s"
  by (simp add: trim_def replace_ws_rev replace_ws_dropWhile)

lemma replace_ws_idem: "replace_ws (replace_ws s) = replace_ws s"
  by (simp add: replace_ws_def)

lemma trim_empty: "trim [] = []" by (simp add: trim_def)
lemma replace_ws_empty: "replace_ws [] = []" by (simp add: replace_ws_def)

lemma token_rotate_fixed:
  "replace_ws (trim (token this)) = token this \<Longrightarrow>
   replace_ws (trim (token (snd (rotateToken e this)))) = token (snd (rotateToken e this))"
  by (simp add: rotateToken_def replace_ws_trim replace_ws_idem trim_empty replace_ws_empty split: option.splits sum.splits)

lemma start_token:
  "token (snd (start e this)) = token this \<or>
        token (snd (start e this)) = token (snd (rotateToken e (this\<lparr>shouldUseAuthentication := True\<rparr>)))"
  by (simp add: start_def Let_def case_prod_beta split: option.splits listen_result.splits)

lemma reachable_token: "reachable this \<Longrightarrow> replace_ws (trim (token this)) = token this"
proof (induction rule: reachable.induct)
  case reachable_new
  show ?case by (simp add: new_ProxyServer_def trim_empty replace_ws_empty)
next
  case (reachable_start this e)
  from reachable_start.IH
  have "replace_ws (trim (token (this\<lparr>shouldUseAuthentication := True\<rparr>))) =
        token (this\<lparr>shouldUseAuthentication := True\<rparr>)"
    by simp
  then have "replace_ws (trim (token (snd (rotateToken e (this\<lparr>shouldUseAuthentication := True\<rparr>))))) =
        token (snd (rotateToken e (this\<lparr>shouldUseAuthentication := True\<rparr>)))"
    by (rule token_rotate_fixed)
  with reachable_start.IH start_token [of e this] show ?case
    by metis
next
  case (reachable_stop this)
  then show ?case by (simp add: stop_def)
next
  case (reachable_timer this e)
  from reachable_timer.IH show ?case by (rule token_rotate_fixed)
qed

lemma reachable_token_blank:
  assumes "reachable this"
  shows "trim (token this) = [] \<longleftrightarrow> token this = []"
proof
  assume "trim (token this) = []"
  with reachable_token [OF assms] show "token this = []"
    by (simp add: replace_ws_empty)
next
  assume "token this = []"
  then show "trim (token this) = []" by (simp add: trim_empty)
qed

subsection \<open>Objects\<close>

lemma obj_set_absent: "k \<notin> fst ` set xs \<Longrightarrow> obj_set k v xs = xs @ [(k, v)]"
  by (induction k v xs rule: obj_set.induct) auto

lemma obj_set_keys: "fst ` set (obj_set k v xs) = insert k (fst ` set xs)"
  by (induction k v xs rule: obj_set.induct) auto

lemma obj_set_distinct: "distinct (map fst xs) \<Longrightarrow> distinct (map fst (obj_set k v xs))"
  by (induction k v xs rule: obj_set.induct) (auto simp: obj_set_keys)

lemma obj_set_filter:
  "distinct (map fst xs) \<Longrightarrow> filter (\<lambda>p. fst p = k) (obj_set k v xs) = [(k, v)]"
proof (induction xs)
  case Nil
  show ?case by simp
next
  case (Cons a xs)
  show ?case
  proof (cases "fst a = k")
    case True
    with Cons.prems have "k \<notin> fst ` set xs" by auto
    then have "filter (\<lambda>p. fst p = k) xs = []"
      by (auto simp: filter_empty_conv)
    with True show ?thesis by (cases a) simp
  next
    case False
    with Cons show ?thesis by (cases a) simp
  qed
qed

lemma obj_delete_map_of: "a \<noteq> k \<Longrightarrow> map_of (obj_delete k xs) a = map_of xs a"
  by (induction xs) (auto simp: obj_delete_def)

lemma obj_set_map_of: "map_of (obj_set k v xs) k = Some v"
  by (induction k v xs rule: obj_set.induct) auto

section \<open>The outbound request\<close>

lemma trim_print_token: "trim ''  abc123\<newline>'' = ''abc123''"
  by (simp add: trim_def is_space_def)

lemma requestOptions_Some:
  "parse dest = Some u \<Longrightarrow>
   \<exists>opts. requestOptions parse dest this req = Some (url_protocol u = ''https:'', opts)
     \<and> hostname opts = url_hostname u
     \<and> port opts = (if url_port u \<noteq> '''' then PortString (url_port u)
                     else PortNumber (if url_protocol u = ''https:'' then 443 else 80))
     \<and> path opts = req_url req
     \<and> http_method opts = req_method req
     \<and> rejectUnauthorized opts = False
     \<and> headers opts =
          obj_delete ''proxy-connection'' (obj_delete ''connection'' (obj_delete ''host''
            (if shouldUseAuthentication this \<and> token this \<noteq> '''' \<and> trim (token this) \<noteq> ''''
             then obj_set ''Authorization'' (''Bearer '' @ replace_ws (trim (token this)))
                    (req_headers req)
             else req_headers req)))"
  by (simp add: requestOptions_def Let_def)

text \<open>
  Claim C9. Every outbound request that the request handler builds has
  \<^verbatim>\<open>rejectUnauthorized: false\<close> in its options, so the certificate of an HTTPS
  destination is never verified. Whenever the destination parses, the handler issues
  exactly one outbound request, and that request has the flag off, whatever the server
  state, the inbound request and the upstream answer are.
\<close>

theorem c9_tls_verification_disabled:
  assumes "parse dest = Some u"
  shows "\<exists>r. fst (handler parse dest this req disconnected upstream) = [r]
           \<and> rejectUnauthorized (options r) = False"
proof -
  from assms requestOptions_Some [of parse dest u this req]
  obtain opts where "requestOptions parse dest this req = Some (url_protocol u = ''https:'', opts)"
    and "rejectUnauthorized opts = False"
    by blast
  then show ?thesis by (simp add: handler_def Let_def)
qed

text \<open>
  C9 at a concrete input: an HTTPS destination and a fresh server object.
\<close>

theorem c9_tls_verification_disabled_witness:
  "example_parse ''https://api.example.com'' \<noteq> None
   \<and> (\<exists>r. fst (handler example_parse ''https://api.example.com'' new_ProxyServer
                 example_request False (\<lambda>r. TimesOut)) = [r]
         \<and> rejectUnauthorized (options r) = False)"
proof -
  have h: "example_parse ''https://api.example.com'' =
    Some \<lparr>url_protocol = ''https:'', url_hostname = ''api.example.com'', url_port = ''''\<rparr>"
    by (simp add: example_parse_def)
  from c9_tls_verification_disabled [of example_parse "''https://api.example.com''" _ new_ProxyServer
      example_request False "\<lambda>r. TimesOut"] h
  show ?thesis by simp
qed

text \<open>
  Claim C4, as the code has it. The claim says that a request for \<^verbatim>\<open>/foo?x=1\<close> goes to
  the destination URL followed by \<^verbatim>\<open>/foo?x=1\<close>, the destination's own path kept as a
  prefix. The handler takes only scheme, host and port from the destination and sends the
  inbound \<^verbatim>\<open>req.url\<close> (path and query string) as the whole path: for every destination
  that parses and every inbound request, the one outbound request uses HTTPS exactly when
  the protocol is \<^verbatim>\<open>https:\<close>, goes to the destination's host name, to its port (or to
  443 or 80 when the URL names none), and its path is the inbound path and query string
  unchanged.
\<close>

theorem c4_target_is_origin_plus_inbound_path:
  assumes "parse dest = Some u"
  shows "\<exists>r. fst (handler parse dest this req disconnected upstream) = [r]
           \<and> https r = (url_protocol u = ''https:'')
           \<and> hostname (options r) = url_hostname u
           \<and> port (options r) = (if url_port u \<noteq> '''' then PortString (url_port u)
                 else PortNumber (if url_protocol u = ''https:'' then 443 else 80))
           \<and> path (options r) = req_url req"
proof -
  from assms requestOptions_Some [of parse dest u this req]
  obtain opts where "requestOptions parse dest this req = Some (url_protocol u = ''https:'', opts)"
    and "hostname opts = url_hostname u"
    and "port opts = (if url_port u \<noteq> '''' then PortString (url_port u)
                     else PortNumber (if url_protocol u = ''https:'' then 443 else 80))"
    and "path opts = req_url req"
    by blast
  then show ?thesis by (simp add: handler_def Let_def)
qed

text \<open>
  C4 as stated fails for a destination with a path: with destination
  \<^verbatim>\<open>http://host:8080/api\<close> the request \<^verbatim>\<open>/foo?x=1\<close> goes to
  \<^verbatim>\<open>http://host:8080/foo?x=1\<close>, not to \<^verbatim>\<open>http://host:8080/api/foo?x=1\<close>.
\<close>

theorem c4_counterexample:
  "map target_url (fst (handler example_parse ''http://host:8080/api'' new_ProxyServer
       example_request False (\<lambda>r. TimesOut))) = [''http://host:8080/foo?x=1'']
   \<and> ''http://host:8080/foo?x=1'' \<noteq> ''http://host:8080/api'' @ req_url example_request"
  by (simp add: handler_def requestOptions_def Let_def example_parse_def example_request_def
      new_ProxyServer_def target_url_def obj_delete_def)

text \<open>
  C4 as the code has it, at a concrete input: a destination without a path, where the target is
  the destination followed by the inbound path and query string.
\<close>

theorem c4_target_is_origin_plus_inbound_path_witness:
  "example_parse ''https://api.example.com'' \<noteq> None
   \<and> (\<exists>r. fst (handler example_parse ''https://api.example.com'' new_ProxyServer
                 example_request False (\<lambda>r. TimesOut)) = [r]
           \<and> https r
           \<and> hostname (options r) = ''api.example.com''
           \<and> port (options r) = PortNumber 443
           \<and> path (options r) = ''/foo?x=1'')"
proof -
  have h: "example_parse ''https://api.example.com'' =
    Some \<lparr>url_protocol = ''https:'', url_hostname = ''api.example.com'', url_port = ''''\<rparr>"
    by (simp add: example_parse_def)
  from c4_target_is_origin_plus_inbound_path [of example_parse "''https://api.example.com''" _
      new_ProxyServer example_request False "\<lambda>r. TimesOut"] h
  show ?thesis by (simp add: example_request_def)
qed

section \<open>Token rotation\<close>

lemma rotateToken_success:
  assumes "shouldUseAuthentication this"
    and "tokenCommand (cfg e) = Some cmd" and "trim cmd \<noteq> ''''"
    and "execSync e cmd = Inr out"
  shows "rotateToken e this = ([InfoTokenRotated], this\<lparr>token := replace_ws (trim out)\<rparr>)"
proof -
  from assms(3) have "cmd \<noteq> ''''" by (auto simp: trim_empty)
  with assms show ?thesis by (simp add: rotateToken_def)
qed

lemma rotateToken_exec_fails:
  assumes "shouldUseAuthentication this"
    and "tokenCommand (cfg e) = Some cmd" and "trim cmd \<noteq> ''''"
    and "execSync e cmd = Inl err"
  shows "rotateToken e this = ([ErrorTokenCommandFailed err], this)"
proof -
  from assms(3) have "cmd \<noteq> ''''" by (auto simp: trim_empty)
  with assms show ?thesis by (simp add: rotateToken_def)
qed

lemma rotateToken_blank:
  assumes "shouldUseAuthentication this"
    and "case tokenCommand (cfg e) of None \<Rightarrow> True | Some c \<Rightarrow> trim c = ''''"
  shows "rotateToken e this =
    ([WarningTokenCommandEmpty], this\<lparr>shouldUseAuthentication := False, token := ''''\<rparr>)"
  using assms by (simp add: rotateToken_def split: option.splits)

lemma rotateToken_disabled:
  "\<not> shouldUseAuthentication this \<Longrightarrow> rotateToken e this = ([], this)"
  by (simp add: rotateToken_def)

lemma authorization_survives_deletes:
  "map_of (obj_delete ''proxy-connection'' (obj_delete ''connection'' (obj_delete ''host''
      (obj_set ''Authorization'' v hs)))) ''Authorization'' = Some v"
  by (simp add: obj_delete_map_of obj_set_map_of)

lemma bearer_attached:
  assumes "parse dest = Some u" and "shouldUseAuthentication this"
    and "replace_ws (trim (token this)) = token this" and "token this \<noteq> ''''"
  shows "\<exists>b opts. requestOptions parse dest this req = Some (b, opts)
     \<and> map_of (headers opts) ''Authorization'' = Some (''Bearer '' @ token this)"
proof -
  from assms(3,4) have "trim (token this) \<noteq> ''''"
    by (auto simp: replace_ws_empty)
  with assms requestOptions_Some [of parse dest u this req]
  show ?thesis
    by (auto simp: authorization_survives_deletes)
qed

text \<open>
  Claim C5. When the token command succeeds, the rotation stores its output with every
  white-space character removed, those inside the output as well as those around it: no
  white-space character is left in the stored token. Authentication stays on, and every
  request handled in that state (the token not being empty) gets the header
  \<^verbatim>\<open>Authorization: Bearer\<close> with that token in its options. For the output
  \<^verbatim>\<open>"  abc123\n"\<close> the token is \<open>abc123\<close> and the header is exactly
  \<^verbatim>\<open>Authorization: Bearer abc123\<close>.
\<close>

theorem c5_token_whitespace_stripped:
  assumes "shouldUseAuthentication this"
    and "tokenCommand (cfg e) = Some cmd" and "trim cmd \<noteq> ''''"
    and "execSync e cmd = Inr out"
    and "filter (\<lambda>c. \<not> is_space c) out \<noteq> ''''"
    and "parse dest = Some u"
  shows "token (snd (rotateToken e this)) = filter (\<lambda>c. \<not> is_space c) out
     \<and> list_all (\<lambda>c. \<not> is_space c) (token (snd (rotateToken e this)))
     \<and> shouldUseAuthentication (snd (rotateToken e this))
     \<and> (\<exists>b opts. requestOptions parse dest (snd (rotateToken e this)) req = Some (b, opts)
          \<and> map_of (headers opts) ''Authorization'' =
                Some (''Bearer '' @ filter (\<lambda>c. \<not> is_space c) out))
     \<and> (out = ''  abc123\<newline>'' \<longrightarrow>
          token (snd (rotateToken e this)) = ''abc123''
          \<and> (\<exists>b opts. requestOptions parse dest (snd (rotateToken e this)) req = Some (b, opts)
                \<and> map_of (headers opts) ''Authorization'' = Some ''Bearer abc123''))"
proof -
  let ?t = "filter (\<lambda>c. \<not> is_space c) out"
  have san: "replace_ws (trim out) = ?t"
    by (simp add: replace_ws_trim) (simp add: replace_ws_def)
  from assms(1-4) have rot: "snd (rotateToken e this) = this\<lparr>token := ?t\<rparr>"
    by (simp add: rotateToken_success san)
  have clean: "list_all (\<lambda>c. \<not> is_space c) ?t"
    by (simp add: list_all_iff)
  have "replace_ws (trim (replace_ws (trim out))) = replace_ws (trim out)"
    by (simp add: replace_ws_trim replace_ws_idem)
  then have fixed: "replace_ws (trim ?t) = ?t" by (simp only: san)
  from bearer_attached [of parse dest u "this\<lparr>token := ?t\<rparr>" req] assms(1,5,6) fixed
  have hdr: "\<exists>b opts. requestOptions parse dest (this\<lparr>token := ?t\<rparr>) req = Some (b, opts)
     \<and> map_of (headers opts) ''Authorization'' = Some (''Bearer '' @ ?t)"
    by simp
  have ex: "filter (\<lambda>c. \<not> is_space c) ''  abc123\<newline>'' = ''abc123''"
    by (simp add: is_space_def)
  have c1: "token (snd (rotateToken e this)) = ?t" by (simp add: rot)
  have c2: "list_all (\<lambda>c. \<not> is_space c) (token (snd (rotateToken e this)))"
    by (simp add: rot list_all_iff)
  from assms(1) have c3: "shouldUseAuthentication (snd (rotateToken e this))"
    by (simp add: rot)
  have c4: "\<exists>b opts. requestOptions parse dest (snd (rotateToken e this)) req = Some (b, opts)
      \<and> map_of (headers opts) ''Authorization'' = Some (''Bearer '' @ ?t)"
    unfolding rot by (rule hdr)
  have c5: "out = ''  abc123\<newline>'' \<longrightarrow>
      token (snd (rotateToken e this)) = ''abc123''
      \<and> (\<exists>b opts. requestOptions parse dest (snd (rotateToken e this)) req = Some (b, opts)
            \<and> map_of (headers opts) ''Authorization'' = Some ''Bearer abc123'')"
  proof
    assume "out = ''  abc123\<newline>''"
    then have "?t = filter (\<lambda>c. \<not> is_space c) ''  abc123\<newline>''" by (simp only:)
    then have t: "?t = ''abc123''" by (simp only: ex)
    have "''Bearer '' @ ''abc123'' = ''Bearer abc123''" by simp
    with c1 c4 t show "token (snd (rotateToken e this)) = ''abc123''
      \<and> (\<exists>b opts. requestOptions parse dest (snd (rotateToken e this)) req = Some (b, opts)
            \<and> map_of (headers opts) ''Authorization'' = Some ''Bearer abc123'')"
      by (simp only:)
  qed
  from c1 c2 c3 c4 c5 show ?thesis by blast
qed

text \<open>
  Claim C2, as the code has it. The claim says that every failed rotation, also the one
  that finds the command string empty, leaves the stored token in place. In the code a
  rotation whose command fails to run (non-zero exit or timeout) changes nothing at all:
  after a successful rotation stored a non-empty token, a failed one leaves it, and a
  request handled afterwards still gets \<^verbatim>\<open>Authorization: Bearer\<close> with that token. A
  rotation that finds the command missing or blank is different: it switches
  authentication off and sets the stored token to the empty string.
\<close>

theorem c2_failed_command_keeps_token:
  assumes "shouldUseAuthentication this"
    and "tokenCommand (cfg e1) = Some c1" and "trim c1 \<noteq> ''''"
    and "execSync e1 c1 = Inr out" and "replace_ws (trim out) \<noteq> ''''"
    and "tokenCommand (cfg e2) = Some c2" and "trim c2 \<noteq> ''''"
    and "execSync e2 c2 = Inl err"
    and "case tokenCommand (cfg e3) of None \<Rightarrow> True | Some c \<Rightarrow> trim c = ''''"
    and "parse dest = Some u"
  shows "snd (rotateToken e2 this) = this
     \<and> token (snd (rotateToken e1 this)) = replace_ws (trim out)
     \<and> snd (rotateToken e2 (snd (rotateToken e1 this))) = snd (rotateToken e1 this)
     \<and> (\<exists>b opts. requestOptions parse dest (snd (rotateToken e2 (snd (rotateToken e1 this)))) req
            = Some (b, opts)
          \<and> map_of (headers opts) ''Authorization'' = Some (''Bearer '' @ replace_ws (trim out)))
     \<and> snd (rotateToken e3 this) = this\<lparr>shouldUseAuthentication := False, token := ''''\<rparr>"
proof -
  let ?this1 = "this\<lparr>token := replace_ws (trim out)\<rparr>"
  from assms(1-4) have r1: "snd (rotateToken e1 this) = ?this1"
    by (simp add: rotateToken_success)
  from assms(1,6-8) have r2: "snd (rotateToken e2 this) = this"
    by (simp add: rotateToken_exec_fails)
  from assms(1,6-8) have r3: "snd (rotateToken e2 ?this1) = ?this1"
    by (simp add: rotateToken_exec_fails)
  from assms(1,9) have r4:
    "snd (rotateToken e3 this) = this\<lparr>shouldUseAuthentication := False, token := ''''\<rparr>"
    by (simp add: rotateToken_blank)
  from bearer_attached [of parse dest u ?this1 req] assms(1,5,10)
  have "\<exists>b opts. requestOptions parse dest ?this1 req = Some (b, opts)
     \<and> map_of (headers opts) ''Authorization'' = Some (''Bearer '' @ replace_ws (trim out))"
    by (simp add: replace_ws_trim replace_ws_idem)
  with r1 r2 r3 r4 show ?thesis by simp
qed



lemma trim_print_cmd: "trim ''print-token'' = ''print-token''"
  by (simp add: trim_def is_space_def)

lemma trim_print_other: "trim ''print-other'' = ''print-other''"
  by (simp add: trim_def is_space_def)

lemma trim_T1: "trim ''T1'' = ''T1''"
  by (simp add: trim_def is_space_def)

lemma replace_ws_T1: "replace_ws ''T1'' = ''T1''"
  by (simp add: replace_ws_def is_space_def)

lemma replace_ws_abc123: "replace_ws ''abc123'' = ''abc123''"
  by (simp add: replace_ws_def is_space_def)

lemma example_start_token:
  "start (example_env (Some ''http://host:8080/api'') (Some ''print-token'') (Some 8080))
     new_ProxyServer =
   ((Resolved True, [InfoTokenRotated, InfoStarted 8080 ''http://host:8080/api'' True]),
    \<lparr>server = Some \<lparr>captured_destination = ''http://host:8080/api'', listening = Some 8080\<rparr>,
     proxy = None, token = ''abc123'', tokenRotationInterval = Some 3600000,
     shouldUseAuthentication = True\<rparr>)"
  by (simp add: start_def rotateToken_def example_env_def example_exec_def new_ProxyServer_def
      or_number_def node_listen_def setInterval_delay_def trim_print_cmd trim_print_token
      replace_ws_abc123)

lemma example_start_other:
  "start (example_env (Some ''http://host:8080/api'') (Some ''print-other'') (Some 8080))
     new_ProxyServer =
   ((Resolved True, [InfoTokenRotated, InfoStarted 8080 ''http://host:8080/api'' True]),
    \<lparr>server = Some \<lparr>captured_destination = ''http://host:8080/api'', listening = Some 8080\<rparr>,
     proxy = None, token = ''T1'', tokenRotationInterval = Some 3600000,
     shouldUseAuthentication = True\<rparr>)"
  by (simp add: start_def rotateToken_def example_env_def example_exec_def new_ProxyServer_def
      or_number_def node_listen_def setInterval_delay_def trim_print_other trim_T1
      replace_ws_T1)

lemma example_start_no_auth:
  "start (example_env (Some ''http://host:8080/api'') (Some '''') (Some 8080))
     new_ProxyServer =
   ((Resolved True, [InfoAuthenticationDisabled, InfoStarted 8080 ''http://host:8080/api'' False]),
    \<lparr>server = Some \<lparr>captured_destination = ''http://host:8080/api'', listening = Some 8080\<rparr>,
     proxy = None, token = '''', tokenRotationInterval = None,
     shouldUseAuthentication = False\<rparr>)"
  by (simp add: start_def example_env_def new_ProxyServer_def
      or_number_def node_listen_def trim_empty)

lemma example_parse_api:
  "example_parse ''http://host:8080/api'' =
     Some \<lparr>url_protocol = ''http:'', url_hostname = ''host'', url_port = ''8080''\<rparr>"
  by (simp add: example_parse_def)

text \<open>
  C5 at two concrete inputs: the command \<^verbatim>\<open>print-token\<close> of the example shell, which
  prints \<^verbatim>\<open>"  abc123\n"\<close>, and \<^verbatim>\<open>print-lines\<close>, whose output has spaces and line
  feeds inside.
\<close>

theorem c5_token_whitespace_stripped_witness:
  "token (snd (rotateToken
      (example_env (Some ''http://host:8080/api'') (Some ''print-token'') (Some 8080))
      (new_ProxyServer\<lparr>shouldUseAuthentication := True\<rparr>))) = ''abc123''
   \<and> (\<exists>b opts. requestOptions example_parse ''http://host:8080/api''
         (snd (rotateToken
            (example_env (Some ''http://host:8080/api'') (Some ''print-token'') (Some 8080))
            (new_ProxyServer\<lparr>shouldUseAuthentication := True\<rparr>))) example_request
         = Some (b, opts)
       \<and> map_of (headers opts) ''Authorization'' = Some ''Bearer abc123'')
   \<and> token (snd (rotateToken
      (example_env (Some ''http://host:8080/api'') (Some ''print-lines'') (Some 8080))
      (new_ProxyServer\<lparr>shouldUseAuthentication := True\<rparr>))) = ''abc123''"
proof -
  let ?e = "example_env (Some ''http://host:8080/api'') (Some ''print-token'') (Some 8080)"
  let ?f = "example_env (Some ''http://host:8080/api'') (Some ''print-lines'') (Some 8080)"
  let ?srv = "new_ProxyServer\<lparr>shouldUseAuthentication := True\<rparr>"
  have h1: "shouldUseAuthentication ?srv" by simp
  have h2: "tokenCommand (cfg ?e) = Some ''print-token''" by (simp add: example_env_def)
  have h3: "trim ''print-token'' \<noteq> ''''" by (simp add: trim_print_cmd)
  have h4: "execSync ?e ''print-token'' = Inr ''  abc123\<newline>''"
    by (simp add: example_env_def example_exec_def)
  have token: "filter (\<lambda>c. \<not> is_space c) ''  abc123\<newline>'' = ''abc123''"
    by (simp add: is_space_def)
  have h5: "filter (\<lambda>c. \<not> is_space c) ''  abc123\<newline>'' \<noteq> ''''"
    unfolding token by simp
  have g2: "tokenCommand (cfg ?f) = Some ''print-lines''" by (simp add: example_env_def)
  have g3: "trim ''print-lines'' \<noteq> ''''" by (simp add: trim_def is_space_def)
  have g4: "execSync ?f ''print-lines'' = Inr '' ab c\<newline>12 3\<newline>''"
    by (simp add: example_env_def example_exec_def)
  have lines: "filter (\<lambda>c. \<not> is_space c) '' ab c\<newline>12 3\<newline>'' = ''abc123''"
    by (simp add: is_space_def)
  have g5: "filter (\<lambda>c. \<not> is_space c) '' ab c\<newline>12 3\<newline>'' \<noteq> ''''"
    unfolding lines by simp
  from c5_token_whitespace_stripped
    [of ?srv ?e "''print-token''" "''  abc123\<newline>''" example_parse
        "''http://host:8080/api''" _ example_request,
     OF h1 h2 h3 h4 h5 example_parse_api]
  have a: "token (snd (rotateToken ?e ?srv)) = ''abc123''
     \<and> (\<exists>b opts. requestOptions example_parse ''http://host:8080/api''
           (snd (rotateToken ?e ?srv)) example_request = Some (b, opts)
         \<and> map_of (headers opts) ''Authorization'' = Some ''Bearer abc123'')"
    by blast
  from c5_token_whitespace_stripped
    [of ?srv ?f "''print-lines''" "'' ab c\<newline>12 3\<newline>''" example_parse
        "''http://host:8080/api''" _ example_request,
     OF h1 g2 g3 g4 g5 example_parse_api]
  have "token (snd (rotateToken ?f ?srv)) =
          filter (\<lambda>c. \<not> is_space c) '' ab c\<newline>12 3\<newline>''"
    by blast
  then have b: "token (snd (rotateToken ?f ?srv)) = ''abc123''"
    by (simp only: lines)
  from a b show ?thesis by blast
qed

text \<open>
  C2 as the code has it, at a concrete input: \<^verbatim>\<open>print-other\<close> prints \<open>T1\<close>, then
  \<^verbatim>\<open>fail\<close> exits with an error, and the header is still \<open>Bearer T1\<close>.
\<close>

theorem c2_failed_command_keeps_token_witness:
  "token (snd (rotateToken (example_env None (Some ''print-other'') None)
            (new_ProxyServer\<lparr>shouldUseAuthentication := True\<rparr>))) = ''T1''
   \<and> (\<exists>b opts. requestOptions example_parse ''http://host:8080/api''
         (snd (rotateToken (example_env None (Some ''fail'') None)
           (snd (rotateToken (example_env None (Some ''print-other'') None)
              (new_ProxyServer\<lparr>shouldUseAuthentication := True\<rparr>))))) example_request
         = Some (b, opts)
       \<and> map_of (headers opts) ''Authorization'' = Some (''Bearer '' @ ''T1''))"
proof -
  let ?ea = "example_env None (Some ''print-other'') None"
  let ?eb = "example_env None (Some ''fail'') None"
  let ?ec = "example_env None None None"
  let ?srv = "new_ProxyServer\<lparr>shouldUseAuthentication := True\<rparr>"
  have h1: "shouldUseAuthentication ?srv" by simp
  have h2: "tokenCommand (cfg ?ea) = Some ''print-other''" by (simp add: example_env_def)
  have h3: "trim ''print-other'' \<noteq> ''''" by (simp add: trim_print_other)
  have h4: "execSync ?ea ''print-other'' = Inr ''T1''"
    by (simp add: example_env_def example_exec_def)
  have t1: "replace_ws (trim ''T1'') = ''T1''" by (simp add: trim_T1 replace_ws_T1)
  have h5: "replace_ws (trim ''T1'') \<noteq> ''''" by (simp add: t1)
  have h6: "tokenCommand (cfg ?eb) = Some ''fail''" by (simp add: example_env_def)
  have h7: "trim ''fail'' \<noteq> ''''" by (simp add: trim_def is_space_def)
  have h8: "execSync ?eb ''fail'' = Inl NonZeroExit"
    by (simp add: example_env_def example_exec_def)
  have h9: "case tokenCommand (cfg ?ec) of None \<Rightarrow> True | Some c \<Rightarrow> trim c = ''''"
    by (simp add: example_env_def)
  from c2_failed_command_keeps_token
    [of ?srv ?ea "''print-other''" "''T1''" ?eb "''fail''" NonZeroExit ?ec
        example_parse "''http://host:8080/api''" _ example_request,
     OF h1 h2 h3 h4 h5 h6 h7 h8 h9 example_parse_api]
  show ?thesis unfolding t1 by blast
qed


text \<open>
  C2 as stated fails when the command string has become empty: a server started with a
  command that prints \<open>T1\<close> holds the token \<open>T1\<close>, and a rotation that then finds the
  configured command empty leaves the empty string in its place.
\<close>

theorem c2_counterexample:
  "token (snd (start (example_env (Some ''http://host:8080/api'') (Some ''print-other'')
                 (Some 8080)) new_ProxyServer)) = ''T1''
   \<and> token (snd (rotateToken (example_env (Some ''http://host:8080/api'') (Some '''') (Some 8080))
        (snd (start (example_env (Some ''http://host:8080/api'') (Some ''print-other'')
                 (Some 8080)) new_ProxyServer)))) = ''''"
  by (simp add: example_start_other) (simp add: rotateToken_def example_env_def)

section \<open>The lifecycle\<close>

lemma start_while_running:
  "server this \<noteq> None \<Longrightarrow> start e this = ((Resolved False, [InfoAlreadyRunning]), this)"
  by (simp add: start_def)

lemma stop_while_stopped:
  "server this = None \<Longrightarrow> stop this = ((False, [InfoNotRunning]), this)"
  by (simp add: stop_def)

lemma stop_then_not_running: "\<not> isRunning (snd (stop this))"
  by (simp add: stop_def isRunning_def)

lemma stop_while_running:
  "server this \<noteq> None \<Longrightarrow> fst (stop this) = (True, [InfoStopped])"
  by (simp add: stop_def)

lemma rotateToken_keeps:
  "server (snd (rotateToken e this)) = server this
   \<and> proxy (snd (rotateToken e this)) = proxy this
   \<and> tokenRotationInterval (snd (rotateToken e this)) = tokenRotationInterval this"
  by (simp add: rotateToken_def split: option.splits sum.splits)

lemma start_then_running:
  "destination (cfg e) = Some d \<Longrightarrow> d \<noteq> '''' \<Longrightarrow> isRunning (snd (start e this))"
  by (simp add: start_def isRunning_def Let_def case_prod_beta split: listen_result.splits)

lemma start_without_destination:
  assumes "server this = None"
    and "destination (cfg e) = None \<or> destination (cfg e) = Some ''''"
  shows "fst (start e this) = (Resolved False, [ErrorDestinationNotSet])
     \<and> server (snd (start e this)) = None
     \<and> proxy (snd (start e this)) = proxy this
     \<and> token (snd (start e this)) = token this
     \<and> tokenRotationInterval (snd (start e this)) = tokenRotationInterval this"
  using assms by (auto simp: start_def Let_def)

text \<open>
  Claim C3 at the inputs where the code departs from it. The claim has a failed
  \<^verbatim>\<open>start\<close> leave every field as it was. Without a destination and with a token
  command, \<^verbatim>\<open>start\<close> on a fresh server object resolves to failure with the error
  that the destination is not set, but the authentication flag, off before, is on after:
  it is assigned before the destination is checked. With a destination and the port
  70000, \<^verbatim>\<open>listen\<close> throws, the promise of \<^verbatim>\<open>start\<close> is rejected and nothing
  listens, but the server object made before the call of \<^verbatim>\<open>listen\<close> stays in the
  server field, which was empty before.
\<close>

theorem c3_state_left_by_failed_start:
  "fst (start (example_env None (Some ''print-token'') (Some 8080)) new_ProxyServer)
     = (Resolved False, [ErrorDestinationNotSet])
   \<and> shouldUseAuthentication
        (snd (start (example_env None (Some ''print-token'') (Some 8080)) new_ProxyServer))
   \<and> \<not> shouldUseAuthentication new_ProxyServer
   \<and> fst (fst (start (example_env (Some ''http://host:8080/api'') (Some '''') (Some 70000))
        new_ProxyServer)) = Rejected
   \<and> server (snd (start (example_env (Some ''http://host:8080/api'') (Some '''') (Some 70000))
        new_ProxyServer))
       = Some \<lparr>captured_destination = ''http://host:8080/api'', listening = None\<rparr>
   \<and> server new_ProxyServer = None"
  by (simp add: start_def example_env_def new_ProxyServer_def or_number_def node_listen_def
      trim_print_cmd trim_empty)

text \<open>
  Claim C8 at the input where the code departs from it. With a destination set and no
  port configured, the port is the fallback 123456, at which \<^verbatim>\<open>listen\<close> throws: the
  promise of \<^verbatim>\<open>start\<close> is rejected and nothing is listening, yet \<^verbatim>\<open>isRunning\<close>
  answers true, because the server field was assigned before \<^verbatim>\<open>listen\<close> was called.
  The claim has \<^verbatim>\<open>isRunning\<close> true only between a successful \<^verbatim>\<open>start\<close> and the
  next \<^verbatim>\<open>stop\<close>.
\<close>

theorem c8_running_after_failed_listen:
  "fst (fst (start (example_env (Some ''http://host:8080/api'') (Some '''') None)
        new_ProxyServer)) = Rejected
   \<and> isRunning (snd (start (example_env (Some ''http://host:8080/api'') (Some '''') None)
        new_ProxyServer))
   \<and> server (snd (start (example_env (Some ''http://host:8080/api'') (Some '''') None)
        new_ProxyServer))
       = Some \<lparr>captured_destination = ''http://host:8080/api'', listening = None\<rparr>"
  by (simp add: start_def example_env_def new_ProxyServer_def or_number_def node_listen_def
      trim_empty isRunning_def)

section \<open>Runs of a started server\<close>

lemma step_keeps_server:
  assumes "server this \<noteq> None"
  shows "server (step ev this) = server this
     \<and> tokenRotationInterval (step ev this) = tokenRotationInterval this"
proof (cases ev)
  case (StartCalled e)
  with assms show ?thesis by (simp add: start_while_running)
next
  case (TimerFired e)
  then show ?thesis by (simp add: rotateToken_keeps)
qed

lemma run_keeps_server:
  "server this \<noteq> None \<Longrightarrow>
   server (run evs this) = server this
   \<and> tokenRotationInterval (run evs this) = tokenRotationInterval this"
proof (induction evs arbitrary: this)
  case Nil
  show ?case by (simp add: run_def)
next
  case (Cons ev evs)
  from Cons.prems step_keeps_server [of this ev]
  have s: "server (step ev this) = server this"
    and t: "tokenRotationInterval (step ev this) = tokenRotationInterval this"
    by simp_all
  from s Cons.prems have "server (step ev this) \<noteq> None" by simp
  from Cons.IH [OF this] s t show ?case by (simp add: run_def)
qed

lemma step_auth_off:
  assumes "server this \<noteq> None" and "\<not> shouldUseAuthentication this"
  shows "step ev this = this"
proof (cases ev)
  case (StartCalled e)
  with assms show ?thesis by (simp add: start_while_running)
next
  case (TimerFired e)
  with assms show ?thesis by (simp add: rotateToken_disabled)
qed

lemma run_auth_off:
  "server this \<noteq> None \<Longrightarrow> \<not> shouldUseAuthentication this \<Longrightarrow> run evs this = this"
proof (induction evs)
  case Nil
  show ?case by (simp add: run_def)
next
  case (Cons ev evs)
  then show ?case by (simp add: run_def step_auth_off)
qed

lemma start_succeeded:
  assumes "fst (fst (start e this)) = Resolved True"
  shows "server this = None
     \<and> (\<exists>d. destination (cfg e) = Some d \<and> d \<noteq> ''''
          \<and> server (snd (start e this)) =
              Some \<lparr>captured_destination = d,
                    listening = Some (or_number (proxyPort (cfg e)) 123456)\<rparr>)
     \<and> shouldUseAuthentication (snd (start e this)) =
          (trim (case tokenCommand (cfg e) of None \<Rightarrow> '''' | Some c \<Rightarrow> c) \<noteq> '''')
     \<and> tokenRotationInterval (snd (start e this)) =
          (if shouldUseAuthentication (snd (start e this))
           then Some (setInterval_delay (or_number (tokenRotationMinutes (cfg e)) 60 * 60 * 1000))
           else tokenRotationInterval this)"
proof -
  from assms have stopped: "server this = None"
    by (auto simp: start_def split: if_splits)
  from assms stopped obtain d where d: "destination (cfg e) = Some d" "d \<noteq> ''''"
    by (cases "destination (cfg e)") (auto simp: start_def Let_def split: if_splits)
  from assms stopped d have l: "listen e (or_number (proxyPort (cfg e)) 123456) = Listens"
    by (cases "listen e (or_number (proxyPort (cfg e)) 123456)")
       (auto simp: start_def Let_def case_prod_beta)
  let ?cmd = "case tokenCommand (cfg e) of None \<Rightarrow> '''' | Some c \<Rightarrow> c"
  have flag: "trim ?cmd \<noteq> '''' \<Longrightarrow>
      shouldUseAuthentication (snd (rotateToken e (this\<lparr>shouldUseAuthentication := True\<rparr>)))"
    by (auto simp: rotateToken_def trim_empty split: option.splits sum.splits)
  show ?thesis
  proof (cases "trim ?cmd = ''''")
    case True
    with stopped d l show ?thesis by (simp add: start_def Let_def)
  next
    case False
    with stopped d l flag show ?thesis
      by (simp add: start_def Let_def case_prod_beta rotateToken_keeps)
  qed
qed

lemma rotateToken_auth_mono:
  "shouldUseAuthentication (snd (rotateToken e this)) \<Longrightarrow> shouldUseAuthentication this"
  by (cases "shouldUseAuthentication this") (simp_all add: rotateToken_disabled)

lemma step_auth_mono:
  assumes "server this \<noteq> None" and "shouldUseAuthentication (step ev this)"
  shows "shouldUseAuthentication this"
proof (cases ev)
  case (StartCalled e)
  with assms show ?thesis by (simp add: start_while_running)
next
  case (TimerFired e)
  with assms show ?thesis by (auto dest: rotateToken_auth_mono split: if_splits)
qed

lemma run_auth_mono:
  "server this \<noteq> None \<Longrightarrow> shouldUseAuthentication (run evs this)
     \<Longrightarrow> shouldUseAuthentication this"
proof (induction evs arbitrary: this)
  case Nil
  then show ?case by (simp add: run_def)
next
  case (Cons ev evs)
  from Cons.prems(1) step_keeps_server [of this ev]
  have "server (step ev this) \<noteq> None" by simp
  moreover from Cons.prems(2) have "shouldUseAuthentication (run evs (step ev this))"
    by (simp add: run_def)
  ultimately have "shouldUseAuthentication (step ev this)" by (rule Cons.IH)
  with Cons.prems(1) show ?case by (rule step_auth_mono)
qed

lemma run_snoc: "run (evs @ [ev]) this = step ev (run evs this)"
  by (simp add: run_def)

text \<open>
  Claim C1, as the code has it. The claim says that nothing during a run, rotations
  included, sees configuration values other than those read at \<^verbatim>\<open>start\<close>. After a
  successful \<^verbatim>\<open>start\<close>, whatever calls of \<^verbatim>\<open>start\<close> and timer ticks follow, and
  whatever the configuration is by then, the server object keeps the destination and the
  port of that \<^verbatim>\<open>start\<close>, and the timer keeps the delay it was made with: the minutes
  read at \<^verbatim>\<open>start\<close> in milliseconds, or one millisecond where \<^verbatim>\<open>setInterval\<close>
  does not take that number. The token command is the exception: at any later moment of
  the run, while authentication is on, a rotation reads it from the configuration of that
  moment and stores the output of that command.
\<close>

theorem c1_frozen_but_token_command:
  assumes "fst (fst (start e this)) = Resolved True"
    and "destination (cfg e) = Some d"
  shows "server (run evs (snd (start e this))) =
           Some \<lparr>captured_destination = d,
                 listening = Some (or_number (proxyPort (cfg e)) 123456)\<rparr>
     \<and> tokenRotationInterval (run evs (snd (start e this))) =
           (if shouldUseAuthentication (snd (start e this))
            then Some (setInterval_delay (or_number (tokenRotationMinutes (cfg e)) 60 * 60 * 1000))
            else tokenRotationInterval this)
     \<and> (shouldUseAuthentication (run evs (snd (start e this))) \<longrightarrow>
          tokenCommand (cfg e') = Some c \<longrightarrow> trim c \<noteq> '''' \<longrightarrow> execSync e' c = Inr out \<longrightarrow>
          token (run (evs @ [TimerFired e']) (snd (start e this))) = replace_ws (trim out))"
proof -
  let ?this1 = "snd (start e this)"
  from start_succeeded [OF assms(1)] assms(2)
  have srv: "server ?this1 = Some \<lparr>captured_destination = d,
                 listening = Some (or_number (proxyPort (cfg e)) 123456)\<rparr>"
    and tmr: "tokenRotationInterval ?this1 =
                (if shouldUseAuthentication ?this1
                 then Some (setInterval_delay (or_number (tokenRotationMinutes (cfg e)) 60 * 60 * 1000))
                 else tokenRotationInterval this)"
    by auto
  from srv have up: "server ?this1 \<noteq> None" by simp
  from run_keeps_server [OF up, of evs]
  have same: "server (run evs ?this1) = server ?this1"
    "tokenRotationInterval (run evs ?this1) = tokenRotationInterval ?this1"
    by simp_all
  have rot: "token (run (evs @ [TimerFired e']) ?this1) = replace_ws (trim out)"
    if on: "shouldUseAuthentication (run evs ?this1)"
      and cmd: "tokenCommand (cfg e') = Some c" "trim c \<noteq> ''''" "execSync e' c = Inr out"
  proof -
    from up on have "shouldUseAuthentication ?this1" by (rule run_auth_mono)
    with tmr same have "tokenRotationInterval (run evs ?this1) \<noteq> None" by simp
    with on cmd show ?thesis by (simp add: run_snoc rotateToken_success)
  qed
  from srv tmr same rot show ?thesis by simp
qed

text \<open>
  C1 as stated fails for the token command: after a \<^verbatim>\<open>start\<close> with the command
  \<^verbatim>\<open>print-token\<close>, a timer tick that finds \<^verbatim>\<open>print-other\<close> configured stores
  \<open>T1\<close>, the output of the new command, where the command read at \<^verbatim>\<open>start\<close> would
  have given \<open>abc123\<close>.
\<close>

theorem c1_counterexample:
  "fst (fst (start (example_env (Some ''http://host:8080/api'') (Some ''print-token'') (Some 8080))
       new_ProxyServer)) = Resolved True
   \<and> token (run [TimerFired
         (example_env (Some ''http://host:8080/api'') (Some ''print-other'') (Some 8080))]
       (snd (start (example_env (Some ''http://host:8080/api'') (Some ''print-token'') (Some 8080))
          new_ProxyServer))) = ''T1''
   \<and> token (run [TimerFired
         (example_env (Some ''http://host:8080/api'') (Some ''print-token'') (Some 8080))]
       (snd (start (example_env (Some ''http://host:8080/api'') (Some ''print-token'') (Some 8080))
          new_ProxyServer))) = ''abc123''"
  by (simp add: example_start_token run_def)
     (simp add: rotateToken_def example_env_def example_exec_def trim_print_other trim_print_cmd
        trim_T1 replace_ws_T1 trim_print_token replace_ws_abc123)

text \<open>
  C1 as the code has it, at a concrete input: a second \<^verbatim>\<open>start\<close> under another destination
  changes nothing, and a tick under another command stores that command's output.
\<close>

theorem c1_frozen_but_token_command_witness:
  "server (run [StartCalled (example_env (Some ''https://api.example.com'') None None)]
      (snd (start (example_env (Some ''http://host:8080/api'') (Some ''print-token'') (Some 8080))
         new_ProxyServer))) =
     Some \<lparr>captured_destination = ''http://host:8080/api'', listening = Some 8080\<rparr>
   \<and> tokenRotationInterval
        (run [StartCalled (example_env (Some ''https://api.example.com'') None None)]
          (snd (start (example_env (Some ''http://host:8080/api'') (Some ''print-token'')
                  (Some 8080)) new_ProxyServer))) = Some 3600000
   \<and> token (run ([StartCalled (example_env (Some ''https://api.example.com'') None None)] @
         [TimerFired
           (example_env (Some ''http://host:8080/api'') (Some ''print-other'') (Some 8080))])
       (snd (start (example_env (Some ''http://host:8080/api'') (Some ''print-token'') (Some 8080))
          new_ProxyServer))) = ''T1''"
proof -
  let ?e = "example_env (Some ''http://host:8080/api'') (Some ''print-token'') (Some 8080)"
  let ?f = "example_env (Some ''http://host:8080/api'') (Some ''print-other'') (Some 8080)"
  let ?evs = "[StartCalled (example_env (Some ''https://api.example.com'') None None)]"
  have h1: "fst (fst (start ?e new_ProxyServer)) = Resolved True"
    by (simp add: example_start_token)
  have h2: "destination (cfg ?e) = Some ''http://host:8080/api''"
    by (simp add: example_env_def)
  have h3: "shouldUseAuthentication (run ?evs (snd (start ?e new_ProxyServer)))"
    by (simp add: example_start_token run_def start_while_running)
  have h4: "tokenCommand (cfg ?f) = Some ''print-other''" by (simp add: example_env_def)
  have h5: "trim ''print-other'' \<noteq> ''''" by (simp add: trim_print_other)
  have h6: "execSync ?f ''print-other'' = Inr ''T1''"
    by (simp add: example_env_def example_exec_def)
  have on: "shouldUseAuthentication (snd (start ?e new_ProxyServer)) = True"
    by (simp add: example_start_token)
  have p: "or_number (proxyPort (cfg ?e)) 123456 = 8080"
    by (simp add: example_env_def or_number_def)
  have q: "setInterval_delay (or_number (tokenRotationMinutes (cfg ?e)) 60 * 60 * 1000) = 3600000"
    by (simp add: example_env_def or_number_def setInterval_delay_def)
  have t1: "replace_ws (trim ''T1'') = ''T1''" by (simp add: trim_T1 replace_ws_T1)
  from c1_frozen_but_token_command [OF h1 h2, of ?evs ?f "''print-other''" "''T1''"]
    h3 h4 h5 h6
  show ?thesis unfolding p q t1 on if_True by blast
qed

text \<open>
  A delay that \<^verbatim>\<open>setInterval\<close> does not take as it is: 35792 minutes are more than
  \<open>2\<^sup>3\<^sup>1 - 1\<close> milliseconds, and the timer of that run fires every millisecond.
\<close>

lemma long_interval_runs_every_millisecond:
  "tokenRotationInterval
     (snd (start
        \<lparr>cfg = \<lparr>destination = Some ''http://host:8080/api'',
                 tokenCommand = Some ''print-token'', proxyPort = Some 8080,
                 tokenRotationMinutes = Some 35792\<rparr>,
         execSync = example_exec, listen = node_listen\<rparr>
        new_ProxyServer)) = Some 1"
  by (simp add: start_def rotateToken_def example_env_def example_exec_def new_ProxyServer_def
      or_number_def node_listen_def setInterval_delay_def trim_print_cmd trim_print_token
      replace_ws_abc123)

text \<open>
  Claim C6. When \<^verbatim>\<open>start\<close> succeeds with a token command that is missing or blank,
  then after any sequence of timer ticks and further calls of \<^verbatim>\<open>start\<close>, under any
  configuration and rotation interval, authentication is off and the headers of an
  outbound request are the inbound headers without \<^verbatim>\<open>host\<close>, \<^verbatim>\<open>connection\<close> and
  \<^verbatim>\<open>proxy-connection\<close>: the handler attaches nothing.
\<close>

theorem c6_no_token_command_no_header:
  assumes "fst (fst (start e this)) = Resolved True"
    and "trim (case tokenCommand (cfg e) of None \<Rightarrow> '''' | Some c \<Rightarrow> c) = ''''"
    and "parse dest = Some u"
  shows "\<not> shouldUseAuthentication (run evs (snd (start e this)))
     \<and> (\<exists>b opts. requestOptions parse dest (run evs (snd (start e this))) req = Some (b, opts)
          \<and> headers opts =
              obj_delete ''proxy-connection'' (obj_delete ''connection''
                (obj_delete ''host'' (req_headers req))))"
proof -
  let ?this1 = "snd (start e this)"
  from start_succeeded [OF assms(1)] assms(2)
  have "server ?this1 \<noteq> None" and off: "\<not> shouldUseAuthentication ?this1"
    by auto
  then have "run evs ?this1 = ?this1" by (rule run_auth_off)
  with off assms(3) requestOptions_Some [of parse dest u ?this1 req]
  show ?thesis by auto
qed

text \<open>
  C6 at a concrete input: started with an empty command, then a tick that finds a
  command configured.
\<close>

theorem c6_no_token_command_no_header_witness:
  "\<not> shouldUseAuthentication
      (run [TimerFired (example_env (Some ''http://host:8080/api'') (Some ''print-token'') None)]
        (snd (start (example_env (Some ''http://host:8080/api'') (Some '''') (Some 8080))
           new_ProxyServer)))
   \<and> (\<exists>b opts. requestOptions example_parse ''http://host:8080/api''
        (run [TimerFired (example_env (Some ''http://host:8080/api'') (Some ''print-token'') None)]
          (snd (start (example_env (Some ''http://host:8080/api'') (Some '''') (Some 8080))
             new_ProxyServer))) example_request = Some (b, opts)
        \<and> headers opts =
              obj_delete ''proxy-connection'' (obj_delete ''connection''
                (obj_delete ''host'' (req_headers example_request))))"
proof -
  let ?e = "example_env (Some ''http://host:8080/api'') (Some '''') (Some 8080)"
  have h1: "fst (fst (start ?e new_ProxyServer)) = Resolved True"
    by (simp add: example_start_no_auth)
  have h2: "trim (case tokenCommand (cfg ?e) of None \<Rightarrow> '''' | Some c \<Rightarrow> c) = ''''"
    by (simp add: example_env_def trim_empty)
  from c6_no_token_command_no_header
    [of ?e new_ProxyServer example_parse "''http://host:8080/api''" _
        "[TimerFired (example_env (Some ''http://host:8080/api'') (Some ''print-token'') None)]"
        example_request,
     OF h1 h2 example_parse_api]
  show ?thesis .
qed

section \<open>The Authorization header on the wire\<close>

lemma obj_set_subset: "set (obj_set k v xs) \<subseteq> insert (k, v) (set xs)"
  by (induction k v xs rule: obj_set.induct) auto

lemma filter_key_distinct:
  "distinct (map fst xs) \<Longrightarrow>
   filter (\<lambda>p. fst p = a) xs = (case map_of xs a of None \<Rightarrow> [] | Some v \<Rightarrow> [(a, v)])"
proof (induction xs)
  case Nil
  show ?case by simp
next
  case (Cons x xs)
  show ?case
  proof (cases "fst x = a")
    case True
    with Cons.prems have "a \<notin> fst ` set xs" by auto
    then have "filter (\<lambda>p. fst p = a) xs = []" by (auto simp: filter_empty_conv)
    with True show ?thesis by (cases x) simp
  next
    case False
    with Cons show ?thesis by (cases x) simp
  qed
qed

lemma fold_setHeader_fresh:
  "list_all (\<lambda>p. toLowerCase (fst p) = fst p) hs \<Longrightarrow> distinct (map fst hs) \<Longrightarrow>
   fst ` set hs \<inter> fst ` set acc = {} \<Longrightarrow>
   fold (\<lambda>p acc. setHeader (fst p) (snd p) acc) hs acc = acc @ map (\<lambda>p. (fst p, p)) hs"
proof (induction hs arbitrary: acc)
  case Nil
  show ?case by simp
next
  case (Cons h hs)
  from Cons.prems have low: "toLowerCase (fst h) = fst h" by simp
  from Cons.prems have fresh: "fst h \<notin> fst ` set acc" by auto
  from low fresh have one: "setHeader (fst h) (snd h) acc = acc @ [(fst h, h)]"
    by (simp add: setHeader_def obj_set_absent)
  from Cons.prems have "fst ` set hs \<inter> fst ` set (acc @ [(fst h, h)]) = {}"
    by auto
  with Cons.IH [of "acc @ [(fst h, h)]"] Cons.prems one show ?case by simp
qed

lemma outgoing_headers_node:
  "node_headers hs \<Longrightarrow> outgoing_headers hs = map (\<lambda>p. (fst p, p)) hs"
  using fold_setHeader_fresh [of hs "[]"] by (simp add: outgoing_headers_def node_headers_def)

lemma outgoing_headers_snoc:
  "outgoing_headers (hs @ [(n, v)]) = setHeader n v (outgoing_headers hs)"
  by (simp add: outgoing_headers_def)

lemma node_headers_delete: "node_headers hs \<Longrightarrow> node_headers (obj_delete k hs)"
  by (simp add: node_headers_def obj_delete_def distinct_map_filter list_all_iff)

lemma lower_Authorization: "toLowerCase ''Authorization'' = ''authorization''"
  by (simp add: toLowerCase_def lower_char_def)

lemma Authorization_not_node:
  assumes "node_headers hs"
  shows "''Authorization'' \<notin> fst ` set hs"
proof
  assume "''Authorization'' \<in> fst ` set hs"
  then obtain p where "p \<in> set hs" and "fst p = ''Authorization''" by auto
  with assms have "toLowerCase ''Authorization'' = ''Authorization''"
    by (auto simp: node_headers_def list_all_iff)
  then show False by (simp add: lower_Authorization)
qed

lemma sent_passthrough:
  assumes "node_headers hs"
  shows "filter (\<lambda>l. toLowerCase (fst l) = ''authorization'')
           (sent_headers (obj_delete ''proxy-connection'' (obj_delete ''connection''
              (obj_delete ''host'' hs)))) =
         (case map_of hs ''authorization'' of None \<Rightarrow> [] | Some v \<Rightarrow> [(''authorization'', v)])"
proof -
  let ?d = "obj_delete ''proxy-connection'' (obj_delete ''connection'' (obj_delete ''host'' hs))"
  from assms have nd: "node_headers ?d" by (simp add: node_headers_delete)
  then have "sent_headers ?d = ?d"
    by (simp add: sent_headers_def outgoing_headers_node comp_def)
  moreover from nd have "filter (\<lambda>l. toLowerCase (fst l) = ''authorization'') ?d =
      filter (\<lambda>l. fst l = ''authorization'') ?d"
    by (intro filter_cong) (auto simp: node_headers_def list_all_iff)
  moreover from nd have "filter (\<lambda>l. fst l = ''authorization'') ?d =
      (case map_of ?d ''authorization'' of None \<Rightarrow> [] | Some v \<Rightarrow> [(''authorization'', v)])"
    by (simp add: filter_key_distinct node_headers_def)
  moreover have "map_of ?d ''authorization'' = map_of hs ''authorization''"
    by (simp add: obj_delete_map_of)
  ultimately show ?thesis by simp
qed

lemma sent_replaced:
  assumes "node_headers hs"
  shows "filter (\<lambda>l. toLowerCase (fst l) = ''authorization'')
           (sent_headers (obj_delete ''proxy-connection'' (obj_delete ''connection''
              (obj_delete ''host'' (obj_set ''Authorization'' v hs))))) =
         [(''Authorization'', v)]"
proof -
  let ?d = "obj_delete ''proxy-connection'' (obj_delete ''connection'' (obj_delete ''host'' hs))"
  let ?og = "map (\<lambda>p. (fst p, p)) ?d"
  let ?new = "obj_set ''authorization'' (''Authorization'', v) ?og"
  from assms have nd: "node_headers ?d" by (simp add: node_headers_delete)
  from Authorization_not_node [OF assms]
  have "obj_set ''Authorization'' v hs = hs @ [(''Authorization'', v)]"
    by (rule obj_set_absent)
  then have "obj_delete ''proxy-connection'' (obj_delete ''connection''
              (obj_delete ''host'' (obj_set ''Authorization'' v hs))) = ?d @ [(''Authorization'', v)]"
    by (simp add: obj_delete_def)
  then have sent: "sent_headers (obj_delete ''proxy-connection'' (obj_delete ''connection''
              (obj_delete ''host'' (obj_set ''Authorization'' v hs)))) = map snd ?new"
    using nd
    by (simp add: sent_headers_def outgoing_headers_snoc outgoing_headers_node setHeader_def
        lower_Authorization)
  from nd have dist: "distinct (map fst ?og)"
    by (simp add: node_headers_def comp_def)
  have inv: "\<forall>q \<in> set ?new. (toLowerCase (fst (snd q)) = ''authorization'') = (fst q = ''authorization'')"
  proof
    fix q assume "q \<in> set ?new"
    with obj_set_subset [of "''authorization''" "(''Authorization'', v)" ?og]
    have "q = (''authorization'', (''Authorization'', v)) \<or> q \<in> set ?og" by auto
    then show "(toLowerCase (fst (snd q)) = ''authorization'') = (fst q = ''authorization'')"
    proof
      assume "q = (''authorization'', (''Authorization'', v))"
      then show ?thesis by (simp add: lower_Authorization)
    next
      assume "q \<in> set ?og"
      then obtain p where "p \<in> set ?d" and "q = (fst p, p)" by auto
      with nd show ?thesis by (auto simp: node_headers_def list_all_iff)
    qed
  qed
  have "filter (\<lambda>l. toLowerCase (fst l) = ''authorization'') (map snd ?new) =
        map snd (filter (\<lambda>q. toLowerCase (fst (snd q)) = ''authorization'') ?new)"
    by (simp add: filter_map comp_def)
  also from inv have "filter (\<lambda>q. toLowerCase (fst (snd q)) = ''authorization'') ?new =
        filter (\<lambda>q. fst q = ''authorization'') ?new"
    by (intro filter_cong) auto
  also from dist have "filter (\<lambda>q. fst q = ''authorization'') ?new =
        [(''authorization'', (''Authorization'', v))]"
    by (rule obj_set_filter)
  finally show ?thesis using sent by simp
qed

text \<open>
  In the options object itself the client's header and the proxy's stand side by side,
  under two keys that differ in case; one line goes out.
\<close>

lemma options_keep_both_names:
  "\<exists>opts. requestOptions example_parse ''http://host:8080/api''
       (snd (start (example_env (Some ''http://host:8080/api'') (Some ''print-token'') (Some 8080))
          new_ProxyServer)) example_request = Some (False, opts)
     \<and> headers opts = [(''authorization'', ''Basic abc''), (''accept'', ''*/*''),
                       (''Authorization'', ''Bearer abc123'')]
     \<and> sent_headers (headers opts) =
           [(''Authorization'', ''Bearer abc123''), (''accept'', ''*/*'')]"
proof -
  have t: "trim ''abc123'' = ''abc123''" by (simp add: trim_def is_space_def)
  show ?thesis
    by (simp add: requestOptions_def example_start_token example_parse_api example_request_def
        obj_delete_def sent_headers_def outgoing_headers_def setHeader_def toLowerCase_def
        lower_char_def t replace_ws_abc123)
qed

text \<open>
  Claim C10. For a server state that the operations can reach and an inbound request
  with Node's headers, the header lines sent upstream contain, among the names that read
  \<^verbatim>\<open>authorization\<close> in lower case, exactly one line \<^verbatim>\<open>Authorization: Bearer\<close> with
  the stored token when authentication is on and the token is not empty (a header of the
  client is replaced, not doubled), and otherwise exactly the client's own header, if it
  sent one, unchanged.
\<close>

theorem c10_authorization_replaced_or_passed:
  assumes "parse dest = Some u" and "node_headers (req_headers req)" and "reachable this"
  shows "\<exists>b opts. requestOptions parse dest this req = Some (b, opts)
     \<and> filter (\<lambda>l. toLowerCase (fst l) = ''authorization'') (sent_headers (headers opts)) =
         (if shouldUseAuthentication this \<and> token this \<noteq> ''''
          then [(''Authorization'', ''Bearer '' @ token this)]
          else (case map_of (req_headers req) ''authorization'' of
                  None \<Rightarrow> [] | Some v \<Rightarrow> [(''authorization'', v)]))"
proof -
  from assms(3) have tok: "replace_ws (trim (token this)) = token this"
    by (rule reachable_token)
  from assms(3) have blank: "(trim (token this) = '''') = (token this = '''')"
    by (rule reachable_token_blank)
  from assms(1) requestOptions_Some [of parse dest u this req]
  obtain opts where opts: "requestOptions parse dest this req = Some (url_protocol u = ''https:'', opts)"
    and hs: "headers opts =
          obj_delete ''proxy-connection'' (obj_delete ''connection'' (obj_delete ''host''
            (if shouldUseAuthentication this \<and> token this \<noteq> '''' \<and> trim (token this) \<noteq> ''''
             then obj_set ''Authorization'' (''Bearer '' @ replace_ws (trim (token this)))
                    (req_headers req)
             else req_headers req)))"
    by blast
  show ?thesis
  proof (cases "shouldUseAuthentication this \<and> token this \<noteq> ''''")
    case True
    with hs tok blank have "headers opts =
          obj_delete ''proxy-connection'' (obj_delete ''connection'' (obj_delete ''host''
            (obj_set ''Authorization'' (''Bearer '' @ token this) (req_headers req))))"
      by simp
    with sent_replaced [OF assms(2), of "''Bearer '' @ token this"] True opts
    show ?thesis by simp
  next
    case False
    with hs have "headers opts =
          obj_delete ''proxy-connection'' (obj_delete ''connection'' (obj_delete ''host''
            (req_headers req)))"
      by auto
    with sent_passthrough [OF assms(2)] False opts
    show ?thesis by auto
  qed
qed

text \<open>
  C10 at a concrete input: the client sends \<^verbatim>\<open>authorization: Basic abc\<close>; a server
  started with a token command replaces it, a server started without one passes it on.
\<close>

theorem c10_authorization_replaced_or_passed_witness:
  "(\<exists>b opts. requestOptions example_parse ''http://host:8080/api''
       (snd (start (example_env (Some ''http://host:8080/api'') (Some ''print-token'') (Some 8080))
          new_ProxyServer)) example_request = Some (b, opts)
     \<and> filter (\<lambda>l. toLowerCase (fst l) = ''authorization'') (sent_headers (headers opts)) =
         [(''Authorization'', ''Bearer abc123'')])
   \<and> (\<exists>b opts. requestOptions example_parse ''http://host:8080/api''
       (snd (start (example_env (Some ''http://host:8080/api'') (Some '''') (Some 8080))
          new_ProxyServer)) example_request = Some (b, opts)
     \<and> filter (\<lambda>l. toLowerCase (fst l) = ''authorization'') (sent_headers (headers opts)) =
         [(''authorization'', ''Basic abc'')])"
proof -
  let ?e = "example_env (Some ''http://host:8080/api'') (Some ''print-token'') (Some 8080)"
  let ?f = "example_env (Some ''http://host:8080/api'') (Some '''') (Some 8080)"
  have low: "toLowerCase ''host'' = ''host''" "toLowerCase ''authorization'' = ''authorization''"
    "toLowerCase ''accept'' = ''accept''"
    by (simp_all add: toLowerCase_def lower_char_def)
  have h2: "node_headers (req_headers example_request)"
    by (simp add: node_headers_def example_request_def low)
  have r: "reachable (snd (start ?e new_ProxyServer))"
    by (rule reachable_start) (rule reachable_new)
  have r0: "reachable (snd (start ?f new_ProxyServer))"
    by (rule reachable_start) (rule reachable_new)
  have m: "map_of (req_headers example_request) ''authorization'' = Some ''Basic abc''"
    by (simp add: example_request_def)
  from c10_authorization_replaced_or_passed
    [of example_parse "''http://host:8080/api''" _ example_request, OF example_parse_api h2 r]
  have a: "\<exists>b opts. requestOptions example_parse ''http://host:8080/api''
       (snd (start ?e new_ProxyServer)) example_request = Some (b, opts)
     \<and> filter (\<lambda>l. toLowerCase (fst l) = ''authorization'') (sent_headers (headers opts)) =
         [(''Authorization'', ''Bearer abc123'')]"
    by (simp add: example_start_token)
  from c10_authorization_replaced_or_passed
    [of example_parse "''http://host:8080/api''" _ example_request, OF example_parse_api h2 r0]
  have b: "\<exists>b opts. requestOptions example_parse ''http://host:8080/api''
       (snd (start ?f new_ProxyServer)) example_request = Some (b, opts)
     \<and> filter (\<lambda>l. toLowerCase (fst l) = ''authorization'') (sent_headers (headers opts)) =
         [(''authorization'', ''Basic abc'')]"
    by (simp add: example_start_no_auth m)
  from a b show ?thesis by blast
qed

end
